theory Spec2Isabelle
  imports Complex_Main
begin

unbundle bit_operations_syntax

section \<open>Data model\<close>

text \<open>
  Coordinates are JavaScript numbers; they are idealised as reals (no claim below is
  about rounding).  A Leaflet \<^verbatim>\<open>LatLng\<close> has the fields \<^verbatim>\<open>lat\<close> and \<^verbatim>\<open>lng\<close>, a Clipper
  point the integer fields \<^verbatim>\<open>X\<close> and \<^verbatim>\<open>Y\<close>.
\<close>

record latLng =
  lat :: real
  lng :: real

record intPoint =
  X :: int
  Y :: int

type_synonym tuple = "real \<times> real"

text \<open>
  A Leaflet polygon is a JavaScript object: two polygons are the same member of the store
  when they are the same object (\<^verbatim>\<open>Object.is\<close>).  The object identity is the field
  \<open>ident\<close>; \<open>ring\<close> is what \<^verbatim>\<open>polygon.getLatLngs()[0]\<close> returns.
\<close>

record polygon =
  ident :: nat
  ring :: "latLng list"

text \<open>A GeoJSON polygon feature, as \<^verbatim>\<open>turf-polygon\<close> builds it from a coordinate list.\<close>

datatype feature = Feature "tuple list"

datatype error =
    TypeError
  | InsufficientPointsError
  | DegeneratePolygonError
  | HullConstructionError
  | InvalidRingError
  | InvalidGeometryError
  | CapacityExceededError
  | InvalidConfigurationError

text \<open>A JavaScript number that may be \<^verbatim>\<open>Infinity\<close> (the default of \<^verbatim>\<open>maximumPolygons\<close>).\<close>

datatype jsnum = Num real | Infinity

text \<open>\<^verbatim>\<open>DrawLayerOptions\<close>, every field present (the merged options of an instance).\<close>

record drawLayerOptions =
  mode :: int
  smoothFactor :: real
  elbowDistance :: real
  simplifyFactor :: real
  mergePolygons :: bool
  concavePolygon :: bool
  maximumPolygons :: jsnum
  notifyAfterEditExit :: bool
  leaveModeAfterCreate :: bool
  strokeWidth :: real

text \<open>
  The third-party geometry primitives and the projections of the host map.  The
  repository only calls them, so they are parameters of the model; a primitive that can
  throw returns a sum.
  \<^item> \<open>createPolygon\<close>: \<^verbatim>\<open>turf-polygon\<close>;
  \<^item> \<open>isIntersecting\<close>: \<^verbatim>\<open>@turf/intersect\<close>, which returns a feature or \<^verbatim>\<open>null\<close>;
  \<^item> \<open>latLngsToClipperPoints\<close>: the helper of \<^verbatim>\<open>helpers/simplify\<close>, for the map at hand;
  \<^item> \<open>SimplifyPolygons\<close>: \<^verbatim>\<open>Clipper.SimplifyPolygons\<close> under \<^verbatim>\<open>pftNonZero\<close>;
  \<^item> \<open>layerPointToLatLng\<close>: the projection of the map;
  \<^item> \<open>simplifyPolygon\<close>, \<open>concaveHull\<close>: the Simplifier and the Concave Hull of the
    creation pipeline.
\<close>

record geometry =
  createPolygon :: "tuple list \<Rightarrow> error + feature"
  isIntersecting :: "feature \<Rightarrow> feature \<Rightarrow> error + feature option"
  latLngsToClipperPoints :: "latLng list \<Rightarrow> intPoint list"
  SimplifyPolygons :: "intPoint list list \<Rightarrow> error + intPoint list list"
  layerPointToLatLng :: "intPoint \<Rightarrow> latLng"
  simplifyPolygon :: "latLng list \<Rightarrow> real \<Rightarrow> error + latLng list"
  concaveHull :: "latLng list \<Rightarrow> error + latLng list"

text \<open>
  One drag in progress: the closure that \<^verbatim>\<open>mouseDown\<close> creates.  \<open>linePoints\<close> is the
  set the closure fills (each sample is a fresh object, so the set is the list of
  samples), \<open>lastPoint\<close> the variable of \<^verbatim>\<open>createPath\<close>.
\<close>

record drag =
  sid :: nat
  linePoints :: "latLng list"
  lastPoint :: tuple

text \<open>
  \<^verbatim>\<open>map[cancelKey]\<close>: the empty function, or the closure
  \<^verbatim>\<open>() => mouseUp({}, false)\<close> of one drag.
\<close>

datatype cancelFn = NoOp | MouseUpCancel nat

datatype call = Merge | CreateFor bool

text \<open>
  What the code keeps per map: the polygon set \<^verbatim>\<open>polygons.get(map)\<close> (a JavaScript
  \<^verbatim>\<open>Set\<close>, in insertion order), the mode \<^verbatim>\<open>map[modesKey]\<close>, the cancel function (\<open>None\<close>
  once \<^verbatim>\<open>onRemove\<close> has deleted the property), the drags whose listeners are registered,
  the segments drawn on the SVG layer, and the reasons \<^verbatim>\<open>updateFor\<close> was called with.
  \<open>nextIdent\<close> gives the identity of the next object created.  \<open>trace\<close> is a ghost field:
  it records every entry into \<^verbatim>\<open>merge\<close> and \<^verbatim>\<open>createFor\<close> (with its
  \<^verbatim>\<open>preventMutations\<close> argument) and is read by no operation.
\<close>

record mapState =
  polygons :: "polygon list"
  modes :: int
  cancelKey :: "cancelFn option"
  drags :: "drag list"
  svgPaths :: "(tuple \<times> tuple) list"
  updates :: "string list"
  nextIdent :: nat
  trace :: "call list"

section \<open>helpers/polygon: the store\<close>

text \<open>
  Modelled from the spec: \<^verbatim>\<open>removeFor\<close> of \<^verbatim>\<open>helpers/polygon\<close> is not among the sources.
  The spec: it removes one identity from the store and is a no-op when the polygon is
  already absent.
\<close>

definition removeFor :: "mapState \<Rightarrow> polygon \<Rightarrow> mapState" where
  "removeFor st p = st\<lparr>polygons := filter (\<lambda>q. ident q \<noteq> ident p) (polygons st)\<rparr>"

text \<open>A new polygon object for a ring, added to the set of the map.\<close>

definition addPolygon :: "mapState \<Rightarrow> latLng list \<Rightarrow> mapState \<times> polygon" where
  "addPolygon st latLngs =
     (let p = \<lparr>ident = nextIdent st, ring = latLngs\<rparr>
      in (st\<lparr>polygons := polygons st @ [p], nextIdent := Suc (nextIdent st)\<rparr>, p))"

text \<open>Whether one more polygon would exceed \<^verbatim>\<open>maximumPolygons\<close>.\<close>

fun exceedsCap :: "nat \<Rightarrow> jsnum \<Rightarrow> bool" where
  "exceedsCap n Infinity = False"
| "exceedsCap n (Num c) = (c < real (Suc n))"

section \<open>helpers/flags and helpers/layer\<close>

text \<open>
  Modelled from the spec: the constants of \<^verbatim>\<open>helpers/flags\<close> are not among the sources.
  The spec: the mode is a bitmask over CREATE, EDIT, DELETE and APPEND, with
  \<^verbatim>\<open>NONE = 0\<close>, \<^verbatim>\<open>EDIT_APPEND = EDIT | APPEND\<close> and \<^verbatim>\<open>ALL\<close> the union of all.  The four
  bits are taken as the first four powers of two.  \<open>ALL_MODES\<close> is the constant
  \<^verbatim>\<open>ALL\<close> of the sources.
\<close>

definition NONE :: int where "NONE = 0"
definition CREATE :: int where "CREATE = 1"
definition EDIT :: int where "EDIT = 2"
definition DELETE :: int where "DELETE = 4"
definition APPEND :: int where "APPEND = 8"
definition EDIT_APPEND :: int where "EDIT_APPEND = EDIT OR APPEND"
definition ALL_MODES :: int where "ALL_MODES = CREATE OR EDIT OR DELETE OR APPEND"

text \<open>
  Modelled from the spec: \<^verbatim>\<open>modeFor\<close> of \<^verbatim>\<open>helpers/flags\<close> is not among the sources.
  The spec: the mode of a surface is set atomically to the new mask.
\<close>

definition modeFor :: "mapState \<Rightarrow> int \<Rightarrow> drawLayerOptions \<Rightarrow> mapState" where
  "modeFor st newMode opts = st\<lparr>modes := newMode\<rparr>"

text \<open>
  Modelled from the spec: \<^verbatim>\<open>updateFor\<close> of \<^verbatim>\<open>helpers/layer\<close> is not among the sources.
  The spec: collaborators are notified of the current polygon list, tagged with a reason
  code.  The notification is recorded by its reason.
\<close>

definition updateFor :: "mapState \<Rightarrow> string \<Rightarrow> mapState" where
  "updateFor st reason = st\<lparr>updates := updates st @ [reason]\<rparr>"

section \<open>helpers/merge\<close>

definition latLngsToTuple :: "latLng list \<Rightarrow> tuple list" where
  "latLngsToTuple latLngs = map (\<lambda>model. (lat model, lng model)) latLngs"

text \<open>
  \<^verbatim>\<open>createPolygon([...x, x[0]])\<close>.  For an empty ring \<^verbatim>\<open>x[0]\<close> is \<^verbatim>\<open>undefined\<close>, which
  \<^verbatim>\<open>turf-polygon\<close> dereferences: a \<^verbatim>\<open>TypeError\<close>.
\<close>

definition toTurfPolygon :: "geometry \<Rightarrow> latLng list \<Rightarrow> error + feature" where
  "toTurfPolygon g latLngs =
     (case latLngsToTuple latLngs of
        [] \<Rightarrow> Inl TypeError
      | x0 # xs \<Rightarrow> createPolygon g ((x0 # xs) @ [x0]))"

text \<open>\<^verbatim>\<open>Boolean(v)\<close> for a value that is a feature or \<^verbatim>\<open>null\<close>.\<close>

definition Boolean :: "feature option \<Rightarrow> bool" where
  "Boolean v = (v \<noteq> None)"

text \<open>
  The callback of \<^verbatim>\<open>some\<close>:
  \<^verbatim>\<open>Boolean(isIntersecting(turfPolygon, toTurfPolygon(polygon.getLatLngs()[0])))\<close>.
\<close>

definition intersectsWith :: "geometry \<Rightarrow> feature \<Rightarrow> polygon \<Rightarrow> error + bool" where
  "intersectsWith g turfPolygon polygon =
     (case toTurfPolygon g (ring polygon) of
        Inl e \<Rightarrow> Inl e
      | Inr other \<Rightarrow>
          (case isIntersecting g turfPolygon other of
             Inl e \<Rightarrow> Inl e
           | Inr v \<Rightarrow> Inr (Boolean v)))"

text \<open>
  \<^verbatim>\<open>others.some(callback)\<close>: left to right, stopping at the first \<^verbatim>\<open>true\<close> or at the
  first exception.
\<close>

fun someIntersecting :: "geometry \<Rightarrow> feature \<Rightarrow> polygon list \<Rightarrow> error + bool" where
  "someIntersecting g turfPolygon [] = Inr False"
| "someIntersecting g turfPolygon (polygon # others) =
     (case intersectsWith g turfPolygon polygon of
        Inl e \<Rightarrow> Inl e
      | Inr b \<Rightarrow> if b then Inr True else someIntersecting g turfPolygon others)"

record analysis =
  intersecting :: "intPoint list list"
  rest :: "latLng list list"
  intersectingPolygons :: "polygon list"

definition emptyAnalysis :: analysis where
  "emptyAnalysis = \<lparr>intersecting = [], rest = [], intersectingPolygons = []\<rparr>"

text \<open>
  The constant \<^verbatim>\<open>intersects\<close> of the callback of \<^verbatim>\<open>polygons.reduce\<close>: whether the
  member under analysis intersects any of the other members of the array being reduced.
\<close>

definition intersectsOthers :: "geometry \<Rightarrow> polygon list \<Rightarrow> polygon \<Rightarrow> error + bool" where
  "intersectsOthers g polygonList polygon =
     (case toTurfPolygon g (ring polygon) of
        Inl e \<Rightarrow> Inl e
      | Inr turfPolygon \<Rightarrow>
          someIntersecting g turfPolygon
            (filter (\<lambda>item. ident item \<noteq> ident polygon) polygonList))"

text \<open>The callback of \<^verbatim>\<open>polygons.reduce\<close>; \<open>polygonList\<close> is the array being reduced.\<close>

definition analyse :: "geometry \<Rightarrow> polygon list \<Rightarrow> analysis \<Rightarrow> polygon \<Rightarrow> error + analysis" where
  "analyse g polygonList accum polygon =
     (let latLngs = ring polygon;
          points = latLngsToClipperPoints g (ring polygon)
      in case intersectsOthers g polygonList polygon of
           Inl e \<Rightarrow> Inl e
         | Inr intersects \<Rightarrow>
             Inr (if intersects
                  then accum\<lparr>intersecting := intersecting accum @ [points],
                             intersectingPolygons := intersectingPolygons accum @ [polygon]\<rparr>
                  else accum\<lparr>rest := rest accum @ [latLngs]\<rparr>))"

fun reduceAnalysis ::
  "geometry \<Rightarrow> polygon list \<Rightarrow> analysis \<Rightarrow> polygon list \<Rightarrow> error + analysis" where
  "reduceAnalysis g polygonList accum [] = Inr accum"
| "reduceAnalysis g polygonList accum (polygon # todo) =
     (case analyse g polygonList accum polygon of
        Inl e \<Rightarrow> Inl e
      | Inr accum' \<Rightarrow> reduceAnalysis g polygonList accum' todo)"

text \<open>
  The intersection test of the merge between two members: the first is converted as the
  member under analysis, the second inside the callback.
\<close>

definition intersects :: "geometry \<Rightarrow> polygon \<Rightarrow> polygon \<Rightarrow> error + bool" where
  "intersects g a b =
     (case toTurfPolygon g (ring a) of
        Inl e \<Rightarrow> Inl e
      | Inr turfPolygon \<Rightarrow> intersectsWith g turfPolygon b)"

text \<open>
  \<^verbatim>\<open>createFor\<close> and the default export of \<^verbatim>\<open>helpers/merge\<close> call each other.

  Modelled from the spec: \<^verbatim>\<open>createFor\<close> of \<^verbatim>\<open>helpers/polygon\<close> is not among the sources.
  The spec: create requires the CREATE bit (when the bit is not set in the mode of the
  map nothing is run and nothing is stored; the spec names no error for it, so the
  create yields no polygon), enforces \<^verbatim>\<open>maximumPolygons\<close> (when the store would exceed
  the cap it fails with \<^verbatim>\<open>CapacityExceededError\<close> and performs no mutation), runs the
  Simplifier,
  then the Concave Hull when \<^verbatim>\<open>concavePolygon\<close> is set (falling back to the ring as it
  was when the hull fails), makes the candidate polygon, and, when \<^verbatim>\<open>mergePolygons\<close> is
  set, runs the Merge Engine.  The merge of the sources takes the polygons of the map,
  the candidate among them, and removes members from the map: the candidate is therefore
  added before the merge is called on the whole set, and the result of the create is the
  result of the merge.  A failure of the Merge Engine is a failure of the create with no
  store mutation: the candidate is taken out again.  With \<^verbatim>\<open>preventMutations\<close> (the
  fourth argument, \<^verbatim>\<open>false\<close> when omitted) the ring becomes one new polygon as it is, and
  nothing else is run.

  \<open>merge\<close> is lines 49 to 98 of \<^verbatim>\<open>helpers/merge.js\<close>; \<open>createEach\<close> is its final
  \<^verbatim>\<open>flatMap\<close>.
\<close>

function createFor ::
    "geometry \<Rightarrow> mapState \<Rightarrow> latLng list \<Rightarrow> drawLayerOptions \<Rightarrow> bool
       \<Rightarrow> mapState \<times> (error + polygon list)"
  and merge ::
    "geometry \<Rightarrow> mapState \<Rightarrow> polygon list \<Rightarrow> drawLayerOptions
       \<Rightarrow> mapState \<times> (error + polygon list)"
  and createEach ::
    "geometry \<Rightarrow> mapState \<Rightarrow> intPoint list list \<Rightarrow> drawLayerOptions
       \<Rightarrow> mapState \<times> (error + polygon list)"
where
  "createFor g st latLngs options preventMutations =
     (let st0 = st\<lparr>trace := trace st @ [CreateFor preventMutations]\<rparr>
      in if preventMutations
         then (case addPolygon st0 latLngs of (st1, p) \<Rightarrow> (st1, Inr [p]))
         else if modes st0 AND CREATE = 0
         then (st0, Inr [])
         else if exceedsCap (length (polygons st0)) (maximumPolygons options)
         then (st0, Inl CapacityExceededError)
         else (case simplifyPolygon g latLngs (simplifyFactor options) of
                 Inl e \<Rightarrow> (st0, Inl e)
               | Inr simplified \<Rightarrow>
                   (let candidate =
                          (if concavePolygon options
                           then (case concaveHull g simplified of
                                   Inl e \<Rightarrow> simplified
                                 | Inr hulled \<Rightarrow> hulled)
                           else simplified)
                    in case addPolygon st0 candidate of
                         (st1, p) \<Rightarrow>
                           if mergePolygons options
                           then (case merge g st1 (polygons st1) options of
                                   (st2, Inl e) \<Rightarrow> (removeFor st2 p, Inl e)
                                 | (st2, Inr created) \<Rightarrow> (st2, Inr created))
                           else (st1, Inr [p]))))"
| "merge g st polygonList options =
     (let st0 = st\<lparr>trace := trace st @ [Merge]\<rparr>
      in case reduceAnalysis g polygonList emptyAnalysis polygonList of
           Inl e \<Rightarrow> (st0, Inl e)
         | Inr analysis \<Rightarrow>
             (case SimplifyPolygons g (intersecting analysis) of
                Inl e \<Rightarrow> (st0, Inl e)
              | Inr mergedPaths \<Rightarrow>
                  createEach g (foldl removeFor st0 (intersectingPolygons analysis))
                    mergedPaths options))"
| "createEach g st [] options = (st, Inr [])"
| "createEach g st (path # paths) options =
     (case createFor g st (map (layerPointToLatLng g) path) options True of
        (st1, Inl e) \<Rightarrow> (st1, Inl e)
      | (st1, Inr created) \<Rightarrow>
          (case createEach g st1 paths options of
             (st2, Inl e) \<Rightarrow> (st2, Inl e)
           | (st2, Inr further) \<Rightarrow> (st2, Inr (created @ further))))"
  by pat_completeness auto

termination
  by (relation "measures
        [\<lambda>x. case x of
               Inl (g, st, latLngs, opts, preventMutations) \<Rightarrow>
                 (if preventMutations then 0 else 3)
             | Inr (Inl (g, st, polygonList, opts)) \<Rightarrow> 2
             | Inr (Inr (g, st, paths, opts)) \<Rightarrow> (1::nat),
         \<lambda>x. case x of
               Inl (g, st, latLngs, opts, preventMutations) \<Rightarrow> 0
             | Inr (Inl (g, st, polygonList, opts)) \<Rightarrow> 0
             | Inr (Inr (g, st, paths, opts)) \<Rightarrow> length paths]")
     auto

declare createFor.simps [simp del] merge.simps [simp del]

text \<open>
  The polygon objects that the final \<^verbatim>\<open>flatMap\<close> makes from the paths of the union when
  the next free identity is \<open>n\<close>.
\<close>

fun polygonsFrom :: "geometry \<Rightarrow> nat \<Rightarrow> intPoint list list \<Rightarrow> polygon list" where
  "polygonsFrom g n [] = []"
| "polygonsFrom g n (path # paths) =
     \<lparr>ident = n, ring = map (layerPointToLatLng g) path\<rparr> # polygonsFrom g (Suc n) paths"

section \<open>The DrawLayer class\<close>

text \<open>
  The sources hold the class twice.  The two versions agree on the constructor, on
  \<^verbatim>\<open>create\<close>, \<^verbatim>\<open>mode\<close> and \<^verbatim>\<open>cancel\<close>, and on the test of the CREATE bit in
  \<^verbatim>\<open>mouseDown\<close>; the model follows the first, whose \<^verbatim>\<open>mouseUp\<close> removes every listener
  of its drag.
\<close>

text \<open>
  \<^verbatim>\<open>Partial<DrawLayerOptions>\<close>: an options object in which any key may be absent
  (\<open>None\<close>).
\<close>

record partialOptions =
  mode_opt :: "int option"
  smoothFactor_opt :: "real option"
  elbowDistance_opt :: "real option"
  simplifyFactor_opt :: "real option"
  mergePolygons_opt :: "bool option"
  concavePolygon_opt :: "bool option"
  maximumPolygons_opt :: "jsnum option"
  notifyAfterEditExit_opt :: "bool option"
  leaveModeAfterCreate_opt :: "bool option"
  strokeWidth_opt :: "real option"

text \<open>The object literal \<^verbatim>\<open>{}\<close>.\<close>

definition noOptions :: partialOptions where
  "noOptions =
     \<lparr>mode_opt = None, smoothFactor_opt = None, elbowDistance_opt = None,
      simplifyFactor_opt = None, mergePolygons_opt = None, concavePolygon_opt = None,
      maximumPolygons_opt = None, notifyAfterEditExit_opt = None,
      leaveModeAfterCreate_opt = None, strokeWidth_opt = None\<rparr>"

definition defaultOptions :: drawLayerOptions where
  "defaultOptions =
     \<lparr>mode = ALL_MODES, smoothFactor = 3 / 10, elbowDistance = 10, simplifyFactor = 11 / 10,
      mergePolygons = True, concavePolygon = True, maximumPolygons = Infinity,
      notifyAfterEditExit = False, leaveModeAfterCreate = False, strokeWidth = 2\<rparr>"

text \<open>\<^verbatim>\<open>{ ...a, ...b }\<close>: every key present in \<open>b\<close> replaces the value of \<open>a\<close>.\<close>

definition spread :: "drawLayerOptions \<Rightarrow> partialOptions \<Rightarrow> drawLayerOptions" where
  "spread a b =
     \<lparr>mode = (case mode_opt b of None \<Rightarrow> mode a | Some v \<Rightarrow> v),
      smoothFactor = (case smoothFactor_opt b of None \<Rightarrow> smoothFactor a | Some v \<Rightarrow> v),
      elbowDistance = (case elbowDistance_opt b of None \<Rightarrow> elbowDistance a | Some v \<Rightarrow> v),
      simplifyFactor = (case simplifyFactor_opt b of None \<Rightarrow> simplifyFactor a | Some v \<Rightarrow> v),
      mergePolygons = (case mergePolygons_opt b of None \<Rightarrow> mergePolygons a | Some v \<Rightarrow> v),
      concavePolygon = (case concavePolygon_opt b of None \<Rightarrow> concavePolygon a | Some v \<Rightarrow> v),
      maximumPolygons =
        (case maximumPolygons_opt b of None \<Rightarrow> maximumPolygons a | Some v \<Rightarrow> v),
      notifyAfterEditExit =
        (case notifyAfterEditExit_opt b of None \<Rightarrow> notifyAfterEditExit a | Some v \<Rightarrow> v),
      leaveModeAfterCreate =
        (case leaveModeAfterCreate_opt b of None \<Rightarrow> leaveModeAfterCreate a | Some v \<Rightarrow> v),
      strokeWidth = (case strokeWidth_opt b of None \<Rightarrow> strokeWidth a | Some v \<Rightarrow> v)\<rparr>"

text \<open>
  An instance: \<^verbatim>\<open>this.options\<close> and \<^verbatim>\<open>this.map\<close> (\<^verbatim>\<open>null\<close> until \<^verbatim>\<open>onAdd\<close>).  The state
  that the code keeps on the map object is held with the reference.
\<close>

record drawLayer =
  this_options :: drawLayerOptions
  this_map :: "mapState option"

text \<open>
  \<^verbatim>\<open>constructor(options = defaultOptions)\<close>.  The result is the new instance, or the
  exception the constructor throws; the body has no \<^verbatim>\<open>throw\<close>.
\<close>

definition constructor :: "partialOptions option \<Rightarrow> error + drawLayer" where
  "constructor optionsArg =
     Inr \<lparr>this_options =
            (case optionsArg of
               None \<Rightarrow> defaultOptions
             | Some given \<Rightarrow> spread defaultOptions given),
          this_map = None\<rparr>"

text \<open>
  \<^verbatim>\<open>onAdd\<close>, for a map that carries nothing yet: the cancel function is the empty
  function, the polygon set is empty and the mode is the configured one.
\<close>

definition onAdd :: "drawLayer \<Rightarrow> drawLayer" where
  "onAdd this =
     this\<lparr>this_map :=
       Some (modeFor
               \<lparr>polygons = [], modes = 0, cancelKey = Some NoOp, drags = [], svgPaths = [],
                updates = [], nextIdent = 0, trace = []\<rparr>
               (mode (this_options this)) (this_options this))\<rparr>"

text \<open>
  \<^verbatim>\<open>create(polygon, options = { concavePolygon: false })\<close>.  \<open>Inr None\<close> is the
  \<^verbatim>\<open>undefined\<close> returned when the layer is on no map; an exception of \<^verbatim>\<open>createFor\<close>
  leaves before \<^verbatim>\<open>updateFor\<close>.
\<close>

definition create ::
  "geometry \<Rightarrow> drawLayer \<Rightarrow> latLng list \<Rightarrow> partialOptions option
     \<Rightarrow> drawLayer \<times> (error + polygon list option)" where
  "create g this latLngs optionsArg =
     (let given = (case optionsArg of
                     None \<Rightarrow> noOptions\<lparr>concavePolygon_opt := Some False\<rparr>
                   | Some v \<Rightarrow> v)
      in case this_map this of
           None \<Rightarrow> (this, Inr None)
         | Some m \<Rightarrow>
             (case createFor g m latLngs (spread (this_options this) given) False of
                (m1, Inl e) \<Rightarrow> (this\<lparr>this_map := Some m1\<rparr>, Inl e)
              | (m1, Inr created) \<Rightarrow>
                  (this\<lparr>this_map := Some (updateFor m1 ''create'')\<rparr>, Inr (Some created))))"

text \<open>
  \<^verbatim>\<open>mode(mode = null)\<close> (documented as \<^verbatim>\<open>setMode\<close>): sets the mode when one is passed,
  and yields the current mode.
\<close>

definition setMode :: "drawLayer \<Rightarrow> int option \<Rightarrow> drawLayer \<times> int option" where
  "setMode this modeArg =
     (case this_map this of
        None \<Rightarrow> (this, None)
      | Some m \<Rightarrow>
          (let m1 = (case modeArg of
                       None \<Rightarrow> m
                     | Some newMode \<Rightarrow> modeFor m newMode (this_options this))
           in (this\<lparr>this_map := Some m1\<rparr>, Some (modes m1))))"

text \<open>
  A pointer event as the handlers read it: its position in the container and the
  geographic position the map gives for it.
\<close>

record mouseEvent =
  containerPoint :: tuple
  latlng :: latLng

text \<open>
  \<^verbatim>\<open>mouseDown\<close>: returns at once unless the mode includes CREATE; otherwise it makes the
  closure of a new drag, registers its listeners and arms \<^verbatim>\<open>map[cancelKey]\<close> with it.
  The test is \<^verbatim>\<open>!(map[modesKey] & CREATE)\<close>; on the masks of the mode \<^verbatim>\<open>&\<close> is the
  bitwise conjunction of integers.
\<close>

definition mouseDown :: "drawLayer \<Rightarrow> mouseEvent \<Rightarrow> drawLayer" where
  "mouseDown this event =
     (case this_map this of
        None \<Rightarrow> this
      | Some m \<Rightarrow>
          if modes m AND CREATE = 0 then this
          else this\<lparr>this_map := Some
                 (m\<lparr>drags := drags m @
                       [\<lparr>sid = nextIdent m, linePoints = [],
                         lastPoint = containerPoint event\<rparr>],
                    cancelKey := Some (MouseUpCancel (nextIdent m)),
                    nextIdent := Suc (nextIdent m)\<rparr>)\<rparr>)"

text \<open>
  \<^verbatim>\<open>mouseMove\<close> of the drag \<open>i\<close>: the sample is added to its set and a segment is drawn
  from the last point.
\<close>

definition mouseMove :: "drawLayer \<Rightarrow> nat \<Rightarrow> mouseEvent \<Rightarrow> drawLayer" where
  "mouseMove this i event =
     (case this_map this of
        None \<Rightarrow> this
      | Some m \<Rightarrow>
          (case find (\<lambda>d. sid d = i) (drags m) of
             None \<Rightarrow> this
           | Some d0 \<Rightarrow>
               this\<lparr>this_map := Some
                 (m\<lparr>drags :=
                      map (\<lambda>d. if sid d = i
                                then d\<lparr>linePoints := linePoints d @ [latlng event],
                                       lastPoint := containerPoint event\<rparr>
                                else d) (drags m),
                    svgPaths := svgPaths m @ [(lastPoint d0, containerPoint event)]\<rparr>)\<rparr>))"

text \<open>
  \<^verbatim>\<open>mouseUp(_, create = true)\<close> of the drag \<open>i\<close>: disarms the cancel function, removes the
  listeners of the drag, clears the SVG layer and, only when \<open>create\<close> is set, creates
  the polygon from the samples, notifies, and leaves the CREATE mode when the options
  ask for it.
\<close>

definition mouseUp :: "geometry \<Rightarrow> drawLayer \<Rightarrow> nat \<Rightarrow> bool \<Rightarrow> drawLayer \<times> (error + unit)" where
  "mouseUp g this i create_flag =
     (case this_map this of
        None \<Rightarrow> (this, Inr ())
      | Some m \<Rightarrow>
          (let latLngs = (case find (\<lambda>d. sid d = i) (drags m) of
                            None \<Rightarrow> []
                          | Some d \<Rightarrow> linePoints d);
               m1 = m\<lparr>cancelKey := Some NoOp,
                      drags := filter (\<lambda>d. sid d \<noteq> i) (drags m),
                      svgPaths := []\<rparr>
           in if create_flag
              then (case (if latLngs \<noteq> []
                          then createFor g m1 latLngs (this_options this) False
                          else (m1, Inr [])) of
                      (m2, Inl e) \<Rightarrow> (this\<lparr>this_map := Some m2\<rparr>, Inl e)
                    | (m2, Inr created) \<Rightarrow>
                        (let m3 = updateFor m2 ''create''
                         in if leaveModeAfterCreate (this_options this)
                            then (this\<lparr>this_map := Some
                                     (modeFor m3 (modes m3 XOR CREATE) (this_options this))\<rparr>,
                                  Inr ())
                            else (this\<lparr>this_map := Some m3\<rparr>, Inr ())))
              else (this\<lparr>this_map := Some m1\<rparr>, Inr ())))"

text \<open>
  \<^verbatim>\<open>cancel()\<close>: calls \<^verbatim>\<open>this.map[cancelKey]\<close>.  Calling the deleted property is a
  \<^verbatim>\<open>TypeError\<close>.
\<close>

definition cancel :: "geometry \<Rightarrow> drawLayer \<Rightarrow> drawLayer \<times> (error + unit)" where
  "cancel g this =
     (case this_map this of
        None \<Rightarrow> (this, Inr ())
      | Some m \<Rightarrow>
          (case cancelKey m of
             None \<Rightarrow> (this, Inl TypeError)
           | Some NoOp \<Rightarrow> (this, Inr ())
           | Some (MouseUpCancel i) \<Rightarrow> mouseUp g this i False))"

section \<open>The libraries behind the intersection test\<close>

text \<open>
  A JavaScript value made of numbers and arrays, and the \<^verbatim>\<open>geometry.coordinates\<close> of a
  feature: the array that \<^verbatim>\<open>toTurfPolygon\<close> handed to \<^verbatim>\<open>turf-polygon\<close>, an array of
  positions \<^verbatim>\<open>[lat, lng]\<close>.
\<close>

datatype json = JNum real | JArr "json list"

definition coordinatesOf :: "feature \<Rightarrow> json" where
  "coordinatesOf f =
     (case f of Feature positions \<Rightarrow> JArr (map (\<lambda>(x, y). JArr [JNum x, JNum y]) positions))"

text \<open>
  Modelled from the spec: the Intersection Analyzer is \<^verbatim>\<open>@turf/intersect\<close>, fed through
  \<^verbatim>\<open>turf-polygon\<close>; neither library is among the sources.  The spec: \<^verbatim>\<open>intersects(a, b)\<close>
  is true iff the enclosed areas of the two rings overlap.  The documentation of the
  libraries: \<^verbatim>\<open>turf-polygon\<close> takes an array of linear rings and wraps it in a polygon
  feature, comparing the first and the last position of each ring; \<^verbatim>\<open>@turf/intersect\<close>
  passes the coordinates of its two polygons to \<^verbatim>\<open>polygon-clipping\<close>, which takes the
  coordinates of a polygon (a non-empty array of rings, each a non-empty array of
  positions) or of a multi-polygon (an array of polygons), raises
  \<^verbatim>\<open>Input geometry is not a valid Polygon or MultiPolygon\<close> on anything else, and
  yields \<^verbatim>\<open>null\<close> when the intersection is empty.

  What \<^verbatim>\<open>toTurfPolygon\<close> passes is one nesting short of that: a single array of
  positions, not an array of rings.  \<^verbatim>\<open>turf-polygon\<close> finds nothing to compare in a
  position and wraps the array as it is.  Among the arrays of positions only the empty
  one is the coordinates of a valid geometry (the multi-polygon without polygons), and
  an intersection with it is empty.
\<close>

fun isPosition :: "json \<Rightarrow> bool" where
  "isPosition (JArr (JNum x # JNum y # others)) = True"
| "isPosition j = False"

fun isRing :: "json \<Rightarrow> bool" where
  "isRing (JArr (p # ps)) = list_all isPosition (p # ps)"
| "isRing j = False"

fun isPolygon :: "json \<Rightarrow> bool" where
  "isPolygon (JArr (r # rs)) = list_all isRing (r # rs)"
| "isPolygon j = False"

fun isMultiPolygon :: "json \<Rightarrow> bool" where
  "isMultiPolygon (JArr ps) = list_all isPolygon ps"
| "isMultiPolygon j = False"

definition validGeometry :: "json \<Rightarrow> bool" where
  "validGeometry j = (isPolygon j \<or> isMultiPolygon j)"

definition turfPolygon :: "tuple list \<Rightarrow> error + feature" where
  "turfPolygon coordinates = Inr (Feature coordinates)"

definition turfIntersect :: "feature \<Rightarrow> feature \<Rightarrow> error + feature option" where
  "turfIntersect a b =
     (if validGeometry (coordinatesOf a) \<and> validGeometry (coordinatesOf b)
      then Inr None
      else Inl InvalidGeometryError)"


section \<open>A geometry of axis-parallel rectangles\<close>

text \<open>
  Concrete runs need concrete primitives.  On axis-parallel rectangles the geometry is
  elementary: two rectangles share interior exactly when their extents overlap in both
  coordinates with positive length, and the union of rectangles that together cover
  their common bounding rectangle is that rectangle.  \<open>boxGeometry\<close> computes with the
  extents of its arguments.  It is an idealised geometry: its intersection test reads the
  array of positions it is handed as the outer ring of a polygon, which the library does
  not (see \<open>turfIntersect\<close>).  It serves to run facts that hold for every geometry on
  lists where a merge has something to merge; nothing about what the intersection test
  of the repository reports is settled on it.  Layer points are pixels: the projection
  to them rounds to the nearest integer.
\<close>

fun bounds :: "('a::linorder \<times> 'a) list \<Rightarrow> ('a \<times> 'a \<times> 'a \<times> 'a) option" where
  "bounds [] = None"
| "bounds ((x, y) # ps) =
     (case bounds ps of
        None \<Rightarrow> Some (x, x, y, y)
      | Some (x0, x1, y0, y1) \<Rightarrow> Some (min x x0, max x x1, min y y0, max y y1))"

definition boxIntersect :: "feature \<Rightarrow> feature \<Rightarrow> error + feature option" where
  "boxIntersect a b =
     (case (a, b) of
        (Feature as, Feature bs) \<Rightarrow>
          (case (bounds as, bounds bs) of
             (Some (ax0, ax1, ay0, ay1), Some (bx0, bx1, by0, by1)) \<Rightarrow>
               (let x0 = max ax0 bx0; x1 = min ax1 bx1;
                    y0 = max ay0 by0; y1 = min ay1 by1
                in if x0 < x1 \<and> y0 < y1
                   then Inr (Some (Feature [(x0, y0), (x1, y0), (x1, y1), (x0, y1), (x0, y0)]))
                   else Inr None)
           | _ \<Rightarrow> Inl InvalidRingError))"

definition boxUnion :: "intPoint list list \<Rightarrow> error + intPoint list list" where
  "boxUnion paths =
     (case bounds (map (\<lambda>q. (X q, Y q)) (concat paths)) of
        None \<Rightarrow> Inr []
      | Some (x0, x1, y0, y1) \<Rightarrow>
          Inr [[\<lparr>X = x0, Y = y0\<rparr>, \<lparr>X = x1, Y = y0\<rparr>, \<lparr>X = x1, Y = y1\<rparr>, \<lparr>X = x0, Y = y1\<rparr>]])"

definition boxGeometry :: geometry where
  "boxGeometry =
     \<lparr>createPolygon = (\<lambda>coordinates. Inr (Feature coordinates)),
      isIntersecting = boxIntersect,
      latLngsToClipperPoints = map (\<lambda>p. \<lparr>X = round (lat p), Y = round (lng p)\<rparr>),
      SimplifyPolygons = boxUnion,
      layerPointToLatLng = (\<lambda>q. \<lparr>lat = of_int (X q), lng = of_int (Y q)\<rparr>),
      simplifyPolygon = (\<lambda>latLngs factor. Inr latLngs),
      concaveHull = (\<lambda>latLngs. Inr latLngs)\<rparr>"

text \<open>
  The same projections, union, simplifier and hull, with the two libraries of the
  intersection test as documented.
\<close>

definition libraryGeometry :: geometry where
  "libraryGeometry =
     \<lparr>createPolygon = turfPolygon,
      isIntersecting = turfIntersect,
      latLngsToClipperPoints = map (\<lambda>p. \<lparr>X = round (lat p), Y = round (lng p)\<rparr>),
      SimplifyPolygons = boxUnion,
      layerPointToLatLng = (\<lambda>q. \<lparr>lat = of_int (X q), lng = of_int (Y q)\<rparr>),
      simplifyPolygon = (\<lambda>latLngs factor. Inr latLngs),
      concaveHull = (\<lambda>latLngs. Inr latLngs)\<rparr>"

text \<open>The ring of the rectangle with the corners \<open>(x0, y0)\<close> and \<open>(x1, y1)\<close>.\<close>

definition rectangle :: "real \<Rightarrow> real \<Rightarrow> real \<Rightarrow> real \<Rightarrow> latLng list" where
  "rectangle x0 y0 x1 y1 =
     [\<lparr>lat = x0, lng = y0\<rparr>, \<lparr>lat = x1, lng = y0\<rparr>, \<lparr>lat = x1, lng = y1\<rparr>, \<lparr>lat = x0, lng = y1\<rparr>]"

text \<open>
  A map whose store holds the given polygons, in the given mode, with no drag in
  progress, and a layer on such a map.
\<close>

definition mapWith :: "polygon list \<Rightarrow> int \<Rightarrow> nat \<Rightarrow> mapState" where
  "mapWith ps md n =
     \<lparr>polygons = ps, modes = md, cancelKey = Some NoOp, drags = [], svgPaths = [],
      updates = [], nextIdent = n, trace = []\<rparr>"

definition layerWith :: "drawLayerOptions \<Rightarrow> polygon list \<Rightarrow> int \<Rightarrow> nat \<Rightarrow> drawLayer" where
  "layerWith opts ps md n = \<lparr>this_options = opts, this_map = Some (mapWith ps md n)\<rparr>"

text \<open>
  Three rectangles: \<open>boxA\<close> and \<open>boxB\<close> overlap in \<open>[5, 10] \<times> [0, 10]\<close> and their union is
  the rectangle \<open>[0, 15] \<times> [0, 10]\<close>; \<open>boxC\<close> is far from both.
\<close>

definition boxA :: polygon where
  "boxA = \<lparr>ident = 0, ring = rectangle 0 0 10 10\<rparr>"

definition boxB :: polygon where
  "boxB = \<lparr>ident = 1, ring = rectangle 5 0 15 10\<rparr>"

definition boxC :: polygon where
  "boxC = \<lparr>ident = 2, ring = rectangle 100 0 110 10\<rparr>"

text \<open>
  The options of \<^verbatim>\<open>example/script.js\<close>, spread over the defaults, and a pointer event.
\<close>

definition scriptOptions :: drawLayerOptions where
  "scriptOptions =
     defaultOptions\<lparr>mode := CREATE, maximumPolygons := Num 3, mergePolygons := False\<rparr>"

definition pointerAt :: "real \<Rightarrow> real \<Rightarrow> mouseEvent" where
  "pointerAt x y = \<lparr>containerPoint = (x, y), latlng = \<lparr>lat = x, lng = y\<rparr>\<rparr>"

section \<open>Facts about the store helpers and the merge\<close>

lemma createFor_prevent:
  "createFor g st latLngs opts True =
     (st\<lparr>polygons := polygons st @ [\<lparr>ident = nextIdent st, ring = latLngs\<rparr>],
         nextIdent := Suc (nextIdent st),
         trace := trace st @ [CreateFor True]\<rparr>,
      Inr [\<lparr>ident = nextIdent st, ring = latLngs\<rparr>])"
  by (simp add: createFor.simps addPolygon_def Let_def)

lemma createEach_eq:
  "createEach g st paths opts =
     (st\<lparr>polygons := polygons st @ polygonsFrom g (nextIdent st) paths,
         nextIdent := nextIdent st + length paths,
         trace := trace st @ replicate (length paths) (CreateFor True)\<rparr>,
      Inr (polygonsFrom g (nextIdent st) paths))"
proof (induction paths arbitrary: st)
  case Nil
  show ?case by simp
next
  case (Cons path paths)
  show ?case
    by (simp add: createFor_prevent Cons.IH replicate_append_same)
qed

lemma foldl_removeFor:
  "foldl removeFor st xs =
     st\<lparr>polygons := filter (\<lambda>q. ident q \<notin> ident ` set xs) (polygons st)\<rparr>"
proof (induction xs arbitrary: st)
  case Nil
  show ?case by simp
next
  case (Cons x xs)
  have "foldl removeFor st (x # xs) = foldl removeFor (removeFor st x) xs"
    by simp
  also have "\<dots> = (removeFor st x)\<lparr>polygons :=
      filter (\<lambda>q. ident q \<notin> ident ` set xs) (polygons (removeFor st x))\<rparr>"
    by (rule Cons.IH)
  also have "\<dots> = st\<lparr>polygons :=
      filter (\<lambda>q. ident q \<notin> ident ` set (x # xs)) (polygons st)\<rparr>"
    by (simp add: removeFor_def conj_commute)
  finally show ?case .
qed

lemma length_polygonsFrom: "length (polygonsFrom g n paths) = length paths"
  by (induction paths arbitrary: n) simp_all

lemma ident_polygonsFrom: "c \<in> set (polygonsFrom g n paths) \<Longrightarrow> n \<le> ident c"
  by (induction paths arbitrary: n) fastforce+

text \<open>The merge in closed form: the analysis, the union, the removals, the creations.\<close>

lemma merge_eq:
  "merge g st polygonList opts =
     (case reduceAnalysis g polygonList emptyAnalysis polygonList of
        Inl e \<Rightarrow> (st\<lparr>trace := trace st @ [Merge]\<rparr>, Inl e)
      | Inr a \<Rightarrow>
          (case SimplifyPolygons g (intersecting a) of
             Inl e \<Rightarrow> (st\<lparr>trace := trace st @ [Merge]\<rparr>, Inl e)
           | Inr paths \<Rightarrow>
               (st\<lparr>polygons :=
                     filter (\<lambda>q. ident q \<notin> ident ` set (intersectingPolygons a)) (polygons st)
                       @ polygonsFrom g (nextIdent st) paths,
                   nextIdent := nextIdent st + length paths,
                   trace := trace st @ Merge # replicate (length paths) (CreateFor True)\<rparr>,
                Inr (polygonsFrom g (nextIdent st) paths))))"
  by (simp add: merge.simps Let_def createEach_eq foldl_removeFor split: sum.splits)





text \<open>What a successful reduction has collected, by induction on the part still to do.\<close>

lemma reduceAnalysis_Inr:
  "reduceAnalysis g ps acc todo = Inr a \<Longrightarrow>
     intersectingPolygons a =
       intersectingPolygons acc @ filter (\<lambda>p. intersectsOthers g ps p = Inr True) todo \<and>
     intersecting a =
       intersecting acc @
         map (\<lambda>p. latLngsToClipperPoints g (ring p))
           (filter (\<lambda>p. intersectsOthers g ps p = Inr True) todo) \<and>
     rest a = rest acc @ map ring (filter (\<lambda>p. intersectsOthers g ps p = Inr False) todo) \<and>
     (\<forall>p\<in>set todo. intersectsOthers g ps p = Inr True \<or> intersectsOthers g ps p = Inr False)"
proof (induction todo arbitrary: acc)
  case Nil
  then show ?case by simp
next
  case (Cons p todo)
  from Cons.prems obtain b where b: "intersectsOthers g ps p = Inr b"
    by (auto simp: analyse_def Let_def split: sum.splits)
  show ?case
  proof (cases b)
    case True
    with b Cons.prems have
      "reduceAnalysis g ps
         (acc\<lparr>intersecting := intersecting acc @ [latLngsToClipperPoints g (ring p)],
              intersectingPolygons := intersectingPolygons acc @ [p]\<rparr>) todo = Inr a"
      by (simp add: analyse_def Let_def)
    from Cons.IH [OF this] True b show ?thesis by simp
  next
    case False
    with b Cons.prems have
      "reduceAnalysis g ps (acc\<lparr>rest := rest acc @ [ring p]\<rparr>) todo = Inr a"
      by (simp add: analyse_def Let_def)
    from Cons.IH [OF this] False b show ?thesis by simp
  qed
qed

text \<open>Evaluation of the rectangle geometry.\<close>

lemmas box_defs =
  intersects_def intersectsWith_def intersectsOthers_def toTurfPolygon_def
  latLngsToTuple_def rectangle_def boxGeometry_def boxIntersect_def boxUnion_def
  Boolean_def analyse_def emptyAnalysis_def Let_def

lemma analysis_ABC:
  "reduceAnalysis boxGeometry [boxA, boxB, boxC] emptyAnalysis [boxA, boxB, boxC] =
     Inr \<lparr>intersecting =
            [[\<lparr>X = 0, Y = 0\<rparr>, \<lparr>X = 10, Y = 0\<rparr>, \<lparr>X = 10, Y = 10\<rparr>, \<lparr>X = 0, Y = 10\<rparr>],
             [\<lparr>X = 5, Y = 0\<rparr>, \<lparr>X = 15, Y = 0\<rparr>, \<lparr>X = 15, Y = 10\<rparr>, \<lparr>X = 5, Y = 10\<rparr>]],
          rest = [ring boxC], intersectingPolygons = [boxA, boxB]\<rparr>"
  by (simp add: box_defs boxA_def boxB_def boxC_def)

lemma merge_ABC:
  "merge boxGeometry (mapWith [boxA, boxB, boxC] 0 3) [boxA, boxB, boxC] defaultOptions =
     ((mapWith [boxC, \<lparr>ident = 3, ring = rectangle 0 0 15 10\<rparr>] 0 4)
        \<lparr>trace := [Merge, CreateFor True]\<rparr>,
      Inr [\<lparr>ident = 3, ring = rectangle 0 0 15 10\<rparr>])"
  by (simp add: merge_eq analysis_ABC mapWith_def)
     (simp add: box_defs boxA_def boxB_def boxC_def)

section \<open>The claims about the merge\<close>

text \<open>
  C3.  The merge performs exactly one merge pass.  Every polygon it creates from the
  output of the union is created by \<^verbatim>\<open>createFor\<close> with \<^verbatim>\<open>preventMutations\<close> set, and such a
  call enters no merge: the calls recorded while \<open>merge\<close> runs are its own entry followed
  by one \<open>CreateFor True\<close> for each polygon it returns, whatever the polygon list.  That
  \<open>merge\<close> returns for every input is the termination proof of the three functions
  above, which orders a \<^verbatim>\<open>createFor\<close> that may merge above \<open>merge\<close>, \<open>merge\<close> above its
  final loop, and the loop above a \<^verbatim>\<open>createFor\<close> that may not merge.
\<close>

theorem merge_single_pass:
  "trace (fst (createFor g st latLngs opts True)) = trace st @ [CreateFor True] \<and>
   (\<exists>n. trace (fst (merge g st polygonList opts)) =
           trace st @ Merge # replicate n (CreateFor True) \<and>
        (case snd (merge g st polygonList opts) of
           Inl e \<Rightarrow> n = 0
         | Inr created \<Rightarrow> n = length created))"
proof
  show "trace (fst (createFor g st latLngs opts True)) = trace st @ [CreateFor True]"
    by (simp add: createFor_prevent)
next
  show "\<exists>n. trace (fst (merge g st polygonList opts)) =
           trace st @ Merge # replicate n (CreateFor True) \<and>
        (case snd (merge g st polygonList opts) of
           Inl e \<Rightarrow> n = 0
         | Inr created \<Rightarrow> n = length created)"
  proof (cases "reduceAnalysis g polygonList emptyAnalysis polygonList")
    case (Inl e)
    then show ?thesis by (simp add: merge_eq)
  next
    case (Inr a)
    show ?thesis
    proof (cases "SimplifyPolygons g (intersecting a)")
      case (Inl e)
      with Inr show ?thesis by (simp add: merge_eq)
    next
      case paths: (Inr paths)
      with Inr show ?thesis
        by (simp add: merge_eq length_polygonsFrom)
    qed
  qed
qed

theorem merge_single_pass_witness:
  "trace (fst (merge boxGeometry (mapWith [boxA, boxB, boxC] 0 3) [boxA, boxB, boxC]
                 defaultOptions)) = [Merge, CreateFor True] \<and>
   (\<exists>n. [Merge, CreateFor True] = Merge # replicate n (CreateFor True) \<and> n = 1)"
  using merge_single_pass [where g = boxGeometry and st = "mapWith [boxA, boxB, boxC] 0 3"
      and latLngs = "[]" and opts = defaultOptions and polygonList = "[boxA, boxB, boxC]"]
  by (simp add: merge_ABC)

text \<open>
  C6.  In a merge all geometry (the intersection tests and the boolean union) is
  computed before any polygon is removed from or added to the store.  When a primitive
  raises, the merge ends with the store as it was: nothing but the record of the call has
  changed.  When the merge returns, the analysis and the union have both succeeded, and
  the store has gone in one transition to its new state: the members that intersect
  nothing, followed by the polygons created.
\<close>

theorem merge_geometry_before_store:
  "case merge g st polygonList opts of
     (st', Inl e) \<Rightarrow>
       polygons st' = polygons st \<and> st' = st\<lparr>trace := trace st @ [Merge]\<rparr> \<and>
       (reduceAnalysis g polygonList emptyAnalysis polygonList = Inl e \<or>
        (\<exists>a. reduceAnalysis g polygonList emptyAnalysis polygonList = Inr a \<and>
             SimplifyPolygons g (intersecting a) = Inl e))
   | (st', Inr created) \<Rightarrow>
       (\<exists>a paths.
          reduceAnalysis g polygonList emptyAnalysis polygonList = Inr a \<and>
          SimplifyPolygons g (intersecting a) = Inr paths \<and>
          polygons st' =
            filter (\<lambda>q. ident q \<notin> ident ` set (intersectingPolygons a)) (polygons st)
              @ created)"
proof (cases "reduceAnalysis g polygonList emptyAnalysis polygonList")
  case (Inl e)
  then show ?thesis by (simp add: merge_eq)
next
  case (Inr a)
  show ?thesis
  proof (cases "SimplifyPolygons g (intersecting a)")
    case (Inl e)
    with Inr show ?thesis by (simp add: merge_eq)
  next
    case paths: (Inr paths)
    with Inr show ?thesis by (simp add: merge_eq)
  qed
qed

text \<open>
  A run in which the union raises \<^verbatim>\<open>InvalidRingError\<close> after the analysis has found two
  intersecting members: the store still holds all three polygons.
\<close>

theorem merge_geometry_before_store_witness:
  "merge (boxGeometry\<lparr>SimplifyPolygons := \<lambda>paths. Inl InvalidRingError\<rparr>)
     (mapWith [boxA, boxB, boxC] 0 3) [boxA, boxB, boxC] defaultOptions =
     ((mapWith [boxA, boxB, boxC] 0 3)\<lparr>trace := [Merge]\<rparr>, Inl InvalidRingError)"
  using merge_geometry_before_store
    [where g = "boxGeometry\<lparr>SimplifyPolygons := \<lambda>paths. Inl InvalidRingError\<rparr>"
       and st = "mapWith [boxA, boxB, boxC] 0 3" and polygonList = "[boxA, boxB, boxC]"
       and opts = defaultOptions]
  by (simp add: merge_eq mapWith_def box_defs boxA_def boxB_def boxC_def)

text \<open>
  C10.  A polygon of the list that the analysis did not put among the intersecting
  polygons is left untouched by the merge: it is not removed from the store and is not
  among the polygons the merge returns.  A member that is gone from the store has the
  identity of a polygon classified as intersecting, and what the merge returns are new
  objects, all in the store.  The polygons of the list are distinct objects that exist
  already (their identities are below the next free one).
\<close>

theorem merge_rest_untouched:
  assumes run: "merge g st polygonList opts = (st', Inr created)"
    and ana: "reduceAnalysis g polygonList emptyAnalysis polygonList = Inr a"
    and objs: "inj_on ident (set polygonList)"
    and old: "\<forall>q\<in>set polygonList. ident q < nextIdent st"
    and p: "p \<in> set polygonList" "p \<notin> set (intersectingPolygons a)"
  shows "p \<notin> set created \<and>
         (p \<in> set (polygons st) \<longrightarrow> p \<in> set (polygons st')) \<and>
         (\<forall>q\<in>set (polygons st). q \<notin> set (polygons st') \<longrightarrow>
            ident q \<in> ident ` set (intersectingPolygons a)) \<and>
         (\<forall>c\<in>set created. nextIdent st \<le> ident c \<and> c \<in> set (polygons st'))"
proof -
  from run ana obtain paths where
    created: "created = polygonsFrom g (nextIdent st) paths" and
    store: "polygons st' =
      filter (\<lambda>q. ident q \<notin> ident ` set (intersectingPolygons a)) (polygons st) @ created"
    by (auto simp: merge_eq split: sum.splits)
  have fresh: "\<And>c. c \<in> set created \<Longrightarrow> nextIdent st \<le> ident c"
    unfolding created by (rule ident_polygonsFrom)
  from ana have members:
    "intersectingPolygons a = filter (\<lambda>p. intersectsOthers g polygonList p = Inr True) polygonList"
    by (simp add: reduceAnalysis_Inr [where acc = emptyAnalysis, simplified emptyAnalysis_def, simplified]
                  emptyAnalysis_def)
  have notCreated: "p \<notin> set created"
  proof
    assume "p \<in> set created"
    then have "nextIdent st \<le> ident p" by (rule fresh)
    moreover from old p(1) have "ident p < nextIdent st" by blast
    ultimately show False by simp
  qed
  have "ident p \<notin> ident ` set (intersectingPolygons a)"
  proof
    assume "ident p \<in> ident ` set (intersectingPolygons a)"
    then obtain p' where p': "p' \<in> set (intersectingPolygons a)" "ident p' = ident p"
      by auto
    from p'(1) members have "p' \<in> set polygonList" by simp
    with objs p(1) p'(2) have "p' = p" by (auto dest: inj_onD)
    with p'(1) p(2) show False by simp
  qed
  then have kept: "p \<in> set (polygons st) \<longrightarrow> p \<in> set (polygons st')"
    by (simp add: store)
  have removed: "\<forall>q\<in>set (polygons st). q \<notin> set (polygons st') \<longrightarrow>
           ident q \<in> ident ` set (intersectingPolygons a)"
    by (auto simp: store)
  have new: "\<forall>c\<in>set created. nextIdent st \<le> ident c \<and> c \<in> set (polygons st')"
    using fresh by (simp add: store)
  from notCreated kept removed new show ?thesis by blast
qed

theorem merge_rest_untouched_witness:
  "boxC \<notin> set [\<lparr>ident = 3, ring = rectangle 0 0 15 10\<rparr>] \<and>
   boxC \<in> set (polygons (fst (merge boxGeometry (mapWith [boxA, boxB, boxC] 0 3)
                                 [boxA, boxB, boxC] defaultOptions))) \<and>
   boxA \<notin> set (polygons (fst (merge boxGeometry (mapWith [boxA, boxB, boxC] 0 3)
                                 [boxA, boxB, boxC] defaultOptions)))"
proof -
  have objs: "inj_on ident (set [boxA, boxB, boxC])"
    by (simp add: boxA_def boxB_def boxC_def)
  have old: "\<forall>q\<in>set [boxA, boxB, boxC]. ident q < nextIdent (mapWith [boxA, boxB, boxC] 0 3)"
    by (simp add: boxA_def boxB_def boxC_def mapWith_def)
  have p: "boxC \<in> set [boxA, boxB, boxC]"
    "boxC \<notin> set (intersectingPolygons
       \<lparr>intersecting =
            [[\<lparr>X = 0, Y = 0\<rparr>, \<lparr>X = 10, Y = 0\<rparr>, \<lparr>X = 10, Y = 10\<rparr>, \<lparr>X = 0, Y = 10\<rparr>],
             [\<lparr>X = 5, Y = 0\<rparr>, \<lparr>X = 15, Y = 0\<rparr>, \<lparr>X = 15, Y = 10\<rparr>, \<lparr>X = 5, Y = 10\<rparr>]],
          rest = [ring boxC], intersectingPolygons = [boxA, boxB]\<rparr>)"
    by (simp_all add: boxA_def boxB_def boxC_def)
  from merge_rest_untouched [OF merge_ABC analysis_ABC objs old p]
  show ?thesis
    unfolding merge_ABC
    by (simp add: mapWith_def boxA_def boxB_def boxC_def)
qed

section \<open>What the libraries make of the ring they are handed\<close>








text \<open>
  For any geometry, the test of the merge adds no asymmetry of its own: when the
  primitive gives the same answer for both orders of two features, so does the test for
  two rings that \<^verbatim>\<open>turf-polygon\<close> accepts.
\<close>

lemma intersects_symmetric_relative:
  assumes sym: "\<And>x y. isIntersecting g x y = isIntersecting g y x"
    and a: "toTurfPolygon g (ring a) = Inr fa"
    and b: "toTurfPolygon g (ring b) = Inr fb"
  shows "intersects g a b = intersects g b a"
  using a b sym [of fa fb] by (simp add: intersects_def intersectsWith_def)



section \<open>The claims about the analysis and the intersection test\<close>






section \<open>What the creation pipeline does not read\<close>

text \<open>The merge never consults the concave hull.\<close>

lemma toTurfPolygon_hull [simp]:
  "toTurfPolygon (g\<lparr>concaveHull := h\<rparr>) l = toTurfPolygon g l"
  by (simp add: toTurfPolygon_def split: list.splits)

lemma intersectsWith_hull [simp]:
  "intersectsWith (g\<lparr>concaveHull := h\<rparr>) t p = intersectsWith g t p"
  by (simp add: intersectsWith_def split: sum.splits)

lemma someIntersecting_hull [simp]:
  "someIntersecting (g\<lparr>concaveHull := h\<rparr>) t ps = someIntersecting g t ps"
  by (induction ps) (simp_all split: sum.splits)

lemma intersectsOthers_hull [simp]:
  "intersectsOthers (g\<lparr>concaveHull := h\<rparr>) ps p = intersectsOthers g ps p"
  by (simp add: intersectsOthers_def split: sum.splits)

lemma analyse_hull [simp]:
  "analyse (g\<lparr>concaveHull := h\<rparr>) ps acc p = analyse g ps acc p"
  by (simp add: analyse_def split: sum.splits)

lemma reduceAnalysis_hull [simp]:
  "reduceAnalysis (g\<lparr>concaveHull := h\<rparr>) ps acc todo = reduceAnalysis g ps acc todo"
  by (induction todo arbitrary: acc) (simp_all split: sum.splits)

lemma polygonsFrom_hull [simp]:
  "polygonsFrom (g\<lparr>concaveHull := h\<rparr>) n paths = polygonsFrom g n paths"
  by (induction paths arbitrary: n) simp_all

lemma merge_hull [simp]:
  "merge (g\<lparr>concaveHull := h\<rparr>) st ps opts = merge g st ps opts"
  by (simp add: merge_eq split: sum.splits)

lemma createFor_hull:
  "\<not> concavePolygon opts \<Longrightarrow>
     createFor (g\<lparr>concaveHull := h\<rparr>) st l opts pm = createFor g st l opts pm"
  by (simp add: createFor.simps Let_def split: sum.splits prod.splits)


lemma spread_concave_false:
  "spread opts (noOptions\<lparr>concavePolygon_opt := Some False\<rparr>) = opts\<lparr>concavePolygon := False\<rparr>"
  by (simp add: spread_def noOptions_def)

lemma createFor_gated:
  "modes st AND CREATE = 0 \<Longrightarrow>
     createFor g st latLngs opts False = (st\<lparr>trace := trace st @ [CreateFor False]\<rparr>, Inr [])"
  by (simp add: createFor.simps)

section \<open>The claims about create\<close>



section \<open>The claims about the DrawLayer class\<close>

text \<open>
  C4.  The constructor does not validate its options.  A configuration in which
  \<^verbatim>\<open>maximumPolygons\<close>, \<^verbatim>\<open>simplifyFactor\<close>, \<^verbatim>\<open>elbowDistance\<close> and \<^verbatim>\<open>smoothFactor\<close> are all
  \<open>-1\<close> gives an instance that holds these values; no \<^verbatim>\<open>InvalidConfigurationError\<close> is
  raised.
\<close>

theorem constructor_accepts_negative:
  "constructor
     (Some (noOptions\<lparr>maximumPolygons_opt := Some (Num (- 1)),
                      simplifyFactor_opt := Some (- 1),
                      elbowDistance_opt := Some (- 1),
                      smoothFactor_opt := Some (- 1)\<rparr>)) =
     Inr \<lparr>this_options =
            defaultOptions\<lparr>maximumPolygons := Num (- 1), simplifyFactor := - 1,
                            elbowDistance := - 1, smoothFactor := - 1\<rparr>,
          this_map = None\<rparr> \<and>
   constructor
     (Some (noOptions\<lparr>maximumPolygons_opt := Some (Num (- 1)),
                      simplifyFactor_opt := Some (- 1),
                      elbowDistance_opt := Some (- 1),
                      smoothFactor_opt := Some (- 1)\<rparr>)) \<noteq>
     Inl InvalidConfigurationError"
  by (simp add: constructor_def spread_def noOptions_def defaultOptions_def)

text \<open>
  C4, as the code has it.  Constructing the layer never fails, whatever the options: the
  instance is on no map and holds the options given, each value as it was passed, in
  particular \<^verbatim>\<open>maximumPolygons\<close>, \<^verbatim>\<open>simplifyFactor\<close>, \<^verbatim>\<open>elbowDistance\<close> and
  \<^verbatim>\<open>smoothFactor\<close>, negative or not.  Nothing is rejected and nothing is clamped.
\<close>

theorem constructor_stores_given:
  "\<exists>this. constructor (Some given) = Inr this \<and> this_map this = None \<and>
     (\<forall>v. maximumPolygons_opt given = Some v \<longrightarrow> maximumPolygons (this_options this) = v) \<and>
     (\<forall>v. simplifyFactor_opt given = Some v \<longrightarrow> simplifyFactor (this_options this) = v) \<and>
     (\<forall>v. elbowDistance_opt given = Some v \<longrightarrow> elbowDistance (this_options this) = v) \<and>
     (\<forall>v. smoothFactor_opt given = Some v \<longrightarrow> smoothFactor (this_options this) = v)"
  by (simp add: constructor_def spread_def)

theorem constructor_stores_given_witness:
  "\<exists>this. constructor (Some (noOptions\<lparr>maximumPolygons_opt := Some (Num (- 1))\<rparr>)) = Inr this \<and>
     this_map this = None \<and> maximumPolygons (this_options this) = Num (- 1)"
  using constructor_stores_given [of "noOptions\<lparr>maximumPolygons_opt := Some (Num (- 1))\<rparr>"]
  by (auto simp: noOptions_def)

text \<open>
  C5.  A create runs only when the CREATE bit is set in the mode of the map.  When the
  bit is not set, \<^verbatim>\<open>mouseDown\<close> changes nothing, so no drag begins; the public \<^verbatim>\<open>create\<close>
  consults no primitive of the pipeline and leaves the store as it was (it yields no
  polygon, and what remains of the call is its record and the notification that
  \<^verbatim>\<open>create\<close> sends in any case); and the \<^verbatim>\<open>mouseUp\<close> of a drag that began while the bit
  was still set leaves the store as it was, too.
\<close>

theorem create_requires_create_bit:
  assumes m: "this_map this = Some m"
    and bit: "modes m AND CREATE = 0"
  shows "mouseDown this event = this \<and>
         create g this latLngs optionsArg =
           (this\<lparr>this_map := Some
                   (m\<lparr>updates := updates m @ [''create''],
                      trace := trace m @ [CreateFor False]\<rparr>)\<rparr>,
            Inr (Some [])) \<and>
         map_option polygons (this_map (fst (mouseUp g this i doCreate))) =
           Some (polygons m) \<and>
         snd (mouseUp g this i doCreate) = Inr ()"
proof (intro conjI)
  from m bit show "mouseDown this event = this"
    by (simp add: mouseDown_def)
next
  from m bit show "create g this latLngs optionsArg =
           (this\<lparr>this_map := Some
                   (m\<lparr>updates := updates m @ [''create''],
                      trace := trace m @ [CreateFor False]\<rparr>)\<rparr>,
            Inr (Some []))"
    by (simp add: create_def createFor_gated updateFor_def)
next
  let ?m1 = "m\<lparr>cancelKey := Some NoOp, drags := filter (\<lambda>d. sid d \<noteq> i) (drags m),
                 svgPaths := []\<rparr>"
  from bit have gated: "createFor g ?m1 l (this_options this) False =
                          (?m1\<lparr>trace := trace ?m1 @ [CreateFor False]\<rparr>, Inr [])" for l
    by (simp add: createFor_gated)
  from m show "map_option polygons (this_map (fst (mouseUp g this i doCreate))) =
           Some (polygons m)"
    by (simp add: mouseUp_def Let_def gated updateFor_def modeFor_def)
  from m show "snd (mouseUp g this i doCreate) = Inr ()"
    by (simp add: mouseUp_def Let_def gated updateFor_def modeFor_def)
qed

text \<open>
  In the mode \<open>NONE\<close> a create leaves \<open>boxA\<close> alone in the store; in the mode \<open>CREATE\<close> the
  same call adds the polygon.
\<close>

theorem create_requires_create_bit_witness:
  "map_option polygons
     (this_map (fst (create libraryGeometry (layerWith scriptOptions [boxA] NONE 1)
                       (rectangle 100 0 110 10) None))) = Some [boxA] \<and>
   map_option polygons
     (this_map (fst (create libraryGeometry (layerWith scriptOptions [boxA] CREATE 1)
                       (rectangle 100 0 110 10) None))) =
     Some [boxA, \<lparr>ident = 1, ring = rectangle 100 0 110 10\<rparr>]"
proof -
  have m: "this_map (layerWith scriptOptions [boxA] NONE 1) = Some (mapWith [boxA] NONE 1)"
    by (simp add: layerWith_def)
  have bit: "modes (mapWith [boxA] NONE 1) AND CREATE = 0"
    by (simp add: mapWith_def NONE_def)
  from create_requires_create_bit
         [where g = libraryGeometry and latLngs = "rectangle 100 0 110 10"
            and optionsArg = None, OF m bit, THEN conjunct2, THEN conjunct1]
  have "map_option polygons
     (this_map (fst (create libraryGeometry (layerWith scriptOptions [boxA] NONE 1)
                       (rectangle 100 0 110 10) None))) = Some [boxA]"
    by (simp add: layerWith_def mapWith_def)
  moreover have "map_option polygons
     (this_map (fst (create libraryGeometry (layerWith scriptOptions [boxA] CREATE 1)
                       (rectangle 100 0 110 10) None))) =
     Some [boxA, \<lparr>ident = 1, ring = rectangle 100 0 110 10\<rparr>]"
    by (simp add: create_def layerWith_def mapWith_def createFor.simps spread_def
          noOptions_def defaultOptions_def scriptOptions_def addPolygon_def updateFor_def
          libraryGeometry_def CREATE_def Let_def)
  ultimately show ?thesis by (rule conjI)
qed

text \<open>
  C8.  The claim has \<^verbatim>\<open>cancel\<close> abort any drag in progress.  The cancel function of the
  map is a single slot that every \<^verbatim>\<open>mouseDown\<close> overwrites.  After two pointer-downs
  with no pointer-up between them, and a sample for the first drag, \<^verbatim>\<open>cancel\<close> aborts the
  second drag only: the first is still registered with its sample, and the cancel
  function is the empty function, so that no further \<^verbatim>\<open>cancel\<close> reaches it.
\<close>

theorem cancel_leaves_earlier_drag:
  "map_option drags
     (this_map (fst (cancel libraryGeometry
        (mouseMove (mouseDown (mouseDown (layerWith scriptOptions [boxA] CREATE 1)
           (pointerAt 1 1)) (pointerAt 5 5)) 1 (pointerAt 2 2))))) =
     Some [\<lparr>sid = 1, linePoints = [\<lparr>lat = 2, lng = 2\<rparr>], lastPoint = (2, 2)\<rparr>] \<and>
   map_option cancelKey
     (this_map (fst (cancel libraryGeometry
        (mouseMove (mouseDown (mouseDown (layerWith scriptOptions [boxA] CREATE 1)
           (pointerAt 1 1)) (pointerAt 5 5)) 1 (pointerAt 2 2))))) =
     Some (Some NoOp)"
  by (simp add: cancel_def mouseUp_def mouseMove_def mouseDown_def layerWith_def mapWith_def
        pointerAt_def CREATE_def Let_def)

text \<open>
  C8, as the code has it.  In every state of the engine \<^verbatim>\<open>cancel\<close> leaves the polygon
  store as it was, and a second \<^verbatim>\<open>cancel\<close> in a row changes nothing more and ends as the
  first did.  \<^verbatim>\<open>cancel\<close> aborts the drag that armed the cancel function, which is the one
  begun by the last pointer-down: its listeners are removed, the SVG layer is cleared,
  the cancel function is the empty function again, and no notification is sent.
\<close>

theorem cancel_keeps_store_idempotent:
  "map_option polygons (this_map (fst (cancel g this))) = map_option polygons (this_map this) \<and>
   cancel g (fst (cancel g this)) = cancel g this \<and>
   (\<forall>m i. this_map this = Some m \<and> cancelKey m = Some (MouseUpCancel i) \<longrightarrow>
      (\<exists>m'. this_map (fst (cancel g this)) = Some m' \<and> cancelKey m' = Some NoOp \<and>
            i \<notin> sid ` set (drags m') \<and> svgPaths m' = [] \<and> updates m' = updates m))"
  by (auto simp: cancel_def mouseUp_def Let_def split: option.splits cancelFn.splits)

text \<open>
  A drag with two samples on a map that holds \<open>boxA\<close>: after \<^verbatim>\<open>cancel\<close> the store still
  holds \<open>boxA\<close> alone and no drag is left.
\<close>

theorem cancel_keeps_store_idempotent_witness:
  "map_option polygons
     (this_map (fst (cancel libraryGeometry
        (mouseMove (mouseMove (mouseDown (layerWith scriptOptions [boxA] CREATE 1)
           (pointerAt 1 1)) 1 (pointerAt 2 2)) 1 (pointerAt 3 1))))) = Some [boxA] \<and>
   map_option drags
     (this_map (fst (cancel libraryGeometry
        (mouseMove (mouseMove (mouseDown (layerWith scriptOptions [boxA] CREATE 1)
           (pointerAt 1 1)) 1 (pointerAt 2 2)) 1 (pointerAt 3 1))))) = Some [] \<and>
   map_option (map linePoints \<circ> drags)
     (this_map (mouseMove (mouseMove (mouseDown (layerWith scriptOptions [boxA] CREATE 1)
           (pointerAt 1 1)) 1 (pointerAt 2 2)) 1 (pointerAt 3 1))) =
     Some [[\<lparr>lat = 2, lng = 2\<rparr>, \<lparr>lat = 3, lng = 1\<rparr>]]"
  using cancel_keeps_store_idempotent
    [of libraryGeometry
        "mouseMove (mouseMove (mouseDown (layerWith scriptOptions [boxA] CREATE 1)
           (pointerAt 1 1)) 1 (pointerAt 2 2)) 1 (pointerAt 3 1)"]
  by (simp add: cancel_def mouseUp_def mouseMove_def mouseDown_def layerWith_def mapWith_def
        pointerAt_def CREATE_def Let_def)

text \<open>
  C9.  The claim has the concave hull skipped for every programmatic create unless the
  caller enables it for the call.  On an instance with the options of
  \<^verbatim>\<open>example/script.js\<close>, where \<^verbatim>\<open>concavePolygon\<close> has its default \<^verbatim>\<open>true\<close>, the call
  \<^verbatim>\<open>create(ring, {})\<close> enables nothing and yet runs the hull: with a hull that reverses
  the ring, the polygon stored is the reversed ring.
\<close>

theorem create_empty_options_runs_hull:
  "concavePolygon scriptOptions \<and> concavePolygon_opt noOptions = None \<and>
   create (libraryGeometry\<lparr>concaveHull := \<lambda>latLngs. Inr (rev latLngs)\<rparr>)
       (layerWith scriptOptions [] CREATE 0) (rectangle 0 0 10 10) (Some noOptions) =
     (\<lparr>this_options = scriptOptions,
       this_map = Some
         ((mapWith [\<lparr>ident = 0, ring = rev (rectangle 0 0 10 10)\<rparr>] CREATE 1)
            \<lparr>updates := [''create''], trace := [CreateFor False]\<rparr>)\<rparr>,
      Inr (Some [\<lparr>ident = 0, ring = rev (rectangle 0 0 10 10)\<rparr>]))"
  by (simp add: create_def layerWith_def mapWith_def createFor.simps spread_def
        noOptions_def defaultOptions_def scriptOptions_def addPolygon_def updateFor_def
        libraryGeometry_def CREATE_def Let_def)

text \<open>
  C9, as the code has it.  A call of the public \<^verbatim>\<open>create\<close> without an options argument is
  the call with the options \<^verbatim>\<open>{ concavePolygon: false }\<close>.  Spread last, they override the
  option of the instance: whenever the options of the call set \<^verbatim>\<open>concavePolygon\<close> to
  false, the pipeline never consults the concave hull.  And the pipeline does run: when
  the CREATE bit is set, the cap is not reached and the Simplifier returns a ring, the
  candidate is a new polygon with exactly that ring, which is stored and returned, or
  handed with the whole store to the merge when merging is enabled.  An options object
  that leaves \<^verbatim>\<open>concavePolygon\<close> out leaves the option of the instance in force.
\<close>

theorem create_without_options_skips_hull:
  "create g this latLngs None =
     create g this latLngs (Some (noOptions\<lparr>concavePolygon_opt := Some False\<rparr>)) \<and>
   (\<forall>given. concavePolygon_opt given = Some False \<longrightarrow>
      create (g\<lparr>concaveHull := h\<rparr>) this latLngs (Some given) =
        create g this latLngs (Some given)) \<and>
   (\<forall>given::partialOptions. concavePolygon_opt given = None \<longrightarrow>
      concavePolygon (spread (this_options this) given) =
        concavePolygon (this_options this)) \<and>
   (\<forall>m simplified.
      this_map this = Some m \<and> modes m AND CREATE \<noteq> 0 \<and>
      \<not> exceedsCap (length (polygons m)) (maximumPolygons (this_options this)) \<and>
      simplifyPolygon g latLngs (simplifyFactor (this_options this)) = Inr simplified \<longrightarrow>
      create g this latLngs None =
        (let p = \<lparr>ident = nextIdent m, ring = simplified\<rparr>;
             st1 = m\<lparr>trace := trace m @ [CreateFor False],
                     polygons := polygons m @ [p], nextIdent := Suc (nextIdent m)\<rparr>
         in if mergePolygons (this_options this)
            then (case merge g st1 (polygons st1)
                         ((this_options this)\<lparr>concavePolygon := False\<rparr>) of
                    (st2, Inl e) \<Rightarrow> (this\<lparr>this_map := Some (removeFor st2 p)\<rparr>, Inl e)
                  | (st2, Inr created) \<Rightarrow>
                      (this\<lparr>this_map := Some (updateFor st2 ''create'')\<rparr>,
                       Inr (Some created)))
            else (this\<lparr>this_map := Some (updateFor st1 ''create'')\<rparr>, Inr (Some [p]))))"
proof (intro conjI allI impI)
  show "create g this latLngs None =
     create g this latLngs (Some (noOptions\<lparr>concavePolygon_opt := Some False\<rparr>))"
    by (simp add: create_def)
next
  fix given :: partialOptions assume "concavePolygon_opt given = Some False"
  then have "\<not> concavePolygon (spread (this_options this) given)"
    by (simp add: spread_def)
  then show "create (g\<lparr>concaveHull := h\<rparr>) this latLngs (Some given) =
        create g this latLngs (Some given)"
    by (simp add: create_def createFor_hull split: option.splits)
next
  fix given :: partialOptions assume "concavePolygon_opt given = None"
  then show "concavePolygon (spread (this_options this) given) =
        concavePolygon (this_options this)"
    by (simp add: spread_def)
next
  fix m simplified
  assume "this_map this = Some m \<and> modes m AND CREATE \<noteq> 0 \<and>
      \<not> exceedsCap (length (polygons m)) (maximumPolygons (this_options this)) \<and>
      simplifyPolygon g latLngs (simplifyFactor (this_options this)) = Inr simplified"
  then show "create g this latLngs None =
        (let p = \<lparr>ident = nextIdent m, ring = simplified\<rparr>;
             st1 = m\<lparr>trace := trace m @ [CreateFor False],
                     polygons := polygons m @ [p], nextIdent := Suc (nextIdent m)\<rparr>
         in if mergePolygons (this_options this)
            then (case merge g st1 (polygons st1)
                         ((this_options this)\<lparr>concavePolygon := False\<rparr>) of
                    (st2, Inl e) \<Rightarrow> (this\<lparr>this_map := Some (removeFor st2 p)\<rparr>, Inl e)
                  | (st2, Inr created) \<Rightarrow>
                      (this\<lparr>this_map := Some (updateFor st2 ''create'')\<rparr>,
                       Inr (Some created)))
            else (this\<lparr>this_map := Some (updateFor st1 ''create'')\<rparr>, Inr (Some [p])))"
    by (auto simp: create_def createFor.simps spread_concave_false addPolygon_def Let_def
          split: prod.splits sum.splits)
qed

text \<open>
  On an instance with the options of \<^verbatim>\<open>example/script.js\<close> and a hull that reverses
  the ring, a create without options stores the ring as the Simplifier returned it.
\<close>

theorem create_without_options_skips_hull_witness:
  "concavePolygon scriptOptions \<and>
   create (libraryGeometry\<lparr>concaveHull := \<lambda>latLngs. Inr (rev latLngs)\<rparr>)
       (layerWith scriptOptions [] CREATE 0) (rectangle 0 0 10 10) None =
     (\<lparr>this_options = scriptOptions,
       this_map = Some
         ((mapWith [\<lparr>ident = 0, ring = rectangle 0 0 10 10\<rparr>] CREATE 1)
            \<lparr>updates := [''create''], trace := [CreateFor False]\<rparr>)\<rparr>,
      Inr (Some [\<lparr>ident = 0, ring = rectangle 0 0 10 10\<rparr>]))"
proof -
  let ?g = "libraryGeometry\<lparr>concaveHull := \<lambda>latLngs. Inr (rev latLngs)\<rparr>"
  let ?layer = "layerWith scriptOptions [] CREATE 0"
  have pre: "this_map ?layer = Some (mapWith [] CREATE 0) \<and>
      modes (mapWith [] CREATE 0) AND CREATE \<noteq> 0 \<and>
      \<not> exceedsCap (length (polygons (mapWith [] CREATE 0)))
           (maximumPolygons (this_options ?layer)) \<and>
      simplifyPolygon ?g (rectangle 0 0 10 10) (simplifyFactor (this_options ?layer)) =
        Inr (rectangle 0 0 10 10)"
    by (simp add: layerWith_def mapWith_def scriptOptions_def defaultOptions_def
          libraryGeometry_def CREATE_def)
  from create_without_options_skips_hull
         [where g = ?g and this = ?layer and latLngs = "rectangle 0 0 10 10",
          THEN conjunct2, THEN conjunct2, THEN conjunct2, THEN spec, THEN spec, THEN mp,
          OF pre]
  show ?thesis
    by (simp add: layerWith_def mapWith_def scriptOptions_def defaultOptions_def
          updateFor_def Let_def)
qed

end
